theory Spec2Isabelle
  imports Main
begin

section \<open>Durations and the tower server's default timings\<close>

text \<open>
  Go's \<^verbatim>\<open>time.Duration\<close> counts nanoseconds; the model keeps that unit, as an
  integer. Wall-clock instants are nanoseconds on the same scale.
\<close>

type_synonym duration = int
type_synonym time = int

definition Millisecond :: duration where
  "Millisecond = 1000000"

definition Second :: duration where
  "Second = 1000 * Millisecond"

definition Minute :: duration where
  "Minute = 60 * Second"

text \<open>The keys of \<^verbatim>\<open>Timings\<close> (a \<^verbatim>\<open>map[string]time.Duration\<close>) are string constants.\<close>

definition TWorkerWait :: string where
  "TWorkerWait = ''worker_wait''"

definition TRequestPick :: string where
  "TRequestPick = ''request_pick''"

definition TRequestSweep :: string where
  "TRequestSweep = ''request_sweep''"

definition TRequestHeartbeat :: string where
  "TRequestHeartbeat = ''request_heartbeat''"

definition TWorkerStatus :: string where
  "TWorkerStatus = ''worker_status''"

definition TWorkerStatusTimeout :: string where
  "TWorkerStatusTimeout = ''worker_status_timeout''"

definition TRequestTimeoutBase :: string where
  "TRequestTimeoutBase = ''request_timeout_base''"

definition defaultTimings :: "string \<rightharpoonup> duration" where
  "defaultTimings = map_of
     [(TWorkerWait, 1000 * Millisecond),
      (TRequestPick, 500 * Millisecond),
      (TRequestSweep, 10 * Second),
      (TWorkerStatusTimeout, 10 * Second),
      (TRequestTimeoutBase, 1 * Minute),
      (TRequestHeartbeat, 10 * Second),
      (TWorkerStatus, 300 * Millisecond)]"

text \<open>
  The timer of \<^verbatim>\<open>manageTask\<close>'s select statement is the literal
  \<^verbatim>\<open>time.After(300 * time.Second)\<close>; the function does not read the timings map.
\<close>

definition silence_timer :: duration where
  "silence_timer = 300 * Second"


section \<open>Messages and streams\<close>

text \<open>
  Go repeats field names across structs (\<^verbatim>\<open>URL\<close>, \<^verbatim>\<open>SDHash\<close>,
  \<^verbatim>\<open>TID\<close>); a record field that would collide with another record's takes a short
  prefix naming its struct.
\<close>

record TranscodingRequest =
  URI :: string
  SDHash :: string

text \<open>
  The declaration of \<^verbatim>\<open>MsgTranscodingTask\<close> is not among the sources; the dispatcher's
  struct literal names \<^verbatim>\<open>URL\<close> and \<^verbatim>\<open>SDHash\<close>, and the specification lists a
  third field \<^verbatim>\<open>TID\<close>. A string field that a Go struct literal does not name holds
  the empty string.
\<close>

record MsgTranscodingTask =
  mtt_URL :: string
  mtt_SDHash :: string
  mtt_TID :: string

record activeTask =
  id' :: string
  workerID :: string
  restored :: bool
  exPayload :: "MsgTranscodingTask option"

record Tier =
  tier_definition :: string
  width :: int
  height :: int
  video_bitrate :: int
  audio_bitrate :: string
  framerate :: int

record Manifest =
  m_TID :: string
  m_SDHash :: string
  TranscodedBy :: string
  TranscodedAt :: time
  Ladder :: "Tier list"

text \<open>
  \<^verbatim>\<open>RemoteStream.Manifest\<close> is a pointer: \<^verbatim>\<open>manageTask\<close> tests it against
  \<^verbatim>\<open>nil\<close>.
\<close>

record RemoteStream =
  rs_SDHash :: string
  Manifest :: "Manifest option"
  RemoteStorage :: string

record MsgWorkerProgress =
  Percent :: int
  Stage :: string

record MsgWorkerSuccess =
  RemoteStream :: RemoteStream


section \<open>The library\<close>

text \<open>
  Modelled from the spec: the library package (\<^verbatim>\<open>AddRemoteStream\<close>,
  \<^verbatim>\<open>GetVideo\<close>, \<^verbatim>\<open>GetVideoURL\<close>) is missing from the sources, which hold only
  its test suite and its callers. The definitions follow section 4.6 of the
  specification. A library is configured with one storage (the test builds it from
  \<^verbatim>\<open>Config{Storage: NewDummyStorage("storage1", ...)}\<close>); resolving a stream's
  \<^verbatim>\<open>RemoteStorage\<close> succeeds when it names that storage. A Video row maps an SDHash to
  the manifest and tracks \<^verbatim>\<open>AccessCount\<close> and \<^verbatim>\<open>AccessedAt\<close>. The stored manifest
  is the stream's payload with \<^verbatim>\<open>TranscodedAt\<close> stamped by the server, and manifests
  are compared modulo that field. A payload without manifest is stored as the null
  document, whose \<^verbatim>\<open>TID\<close> reads as the empty string.
\<close>

datatype library_error = ErrStreamNotFound | ErrDuplicateStream | ErrStorageUnknown

record Video =
  v_SDHash :: string
  v_Manifest :: "Manifest option"
  AccessCount :: nat
  AccessedAt :: time

record Library =
  Storage :: string
  videos :: "string \<rightharpoonup> Video"

definition unstamped :: "Manifest option \<Rightarrow> Manifest option" where
  "unstamped mo = map_option (\<lambda>m. m\<lparr>TranscodedAt := 0\<rparr>) mo"

definition same_manifest :: "Manifest option \<Rightarrow> Manifest option \<Rightarrow> bool" where
  "same_manifest a b = (unstamped a = unstamped b)"

definition AddRemoteStream :: "Library \<Rightarrow> time \<Rightarrow> RemoteStream \<Rightarrow> library_error + Library" where
  "AddRemoteStream lib now rs =
     (if RemoteStorage rs \<noteq> Storage lib then Inl ErrStorageUnknown
      else case videos lib (rs_SDHash rs) of
        None \<Rightarrow>
          Inr (lib\<lparr>videos := (videos lib)(rs_SDHash rs \<mapsto>
                 \<lparr>v_SDHash = rs_SDHash rs,
                  v_Manifest = map_option (\<lambda>m. m\<lparr>TranscodedAt := now\<rparr>) (Manifest rs),
                  AccessCount = 0,
                  AccessedAt = 0\<rparr>)\<rparr>)
      | Some v \<Rightarrow>
          if same_manifest (v_Manifest v) (Manifest rs) then Inr lib
          else Inl ErrDuplicateStream)"

definition GetVideo :: "Library \<Rightarrow> time \<Rightarrow> string \<Rightarrow> library_error + (Video \<times> Library)" where
  "GetVideo lib now sdhash =
     (case videos lib sdhash of
        None \<Rightarrow> Inl ErrStreamNotFound
      | Some v \<Rightarrow>
          (let v' = v\<lparr>AccessCount := AccessCount v + 1, AccessedAt := now\<rparr>
           in Inr (v', lib\<lparr>videos := (videos lib)(sdhash \<mapsto> v')\<rparr>)))"

definition manifest_tid :: "Manifest option \<Rightarrow> string" where
  "manifest_tid mo = (case mo of None \<Rightarrow> [] | Some m \<Rightarrow> m_TID m)"

definition GetVideoURL :: "Library \<Rightarrow> string \<Rightarrow> library_error + string" where
  "GetVideoURL lib sdhash =
     (case videos lib sdhash of
        None \<Rightarrow> Inl ErrStreamNotFound
      | Some v \<Rightarrow> Inr (''remote://'' @ Storage lib @ ''/'' @ manifest_tid (v_Manifest v) @ ''/''))"


section \<open>The task queue\<close>

text \<open>
  The queue package behind \<^verbatim>\<open>s.rpc.tasks.q\<close> is missing from the sources. The
  dispatcher uses one operation of it, \<^verbatim>\<open>GetTaskBySDHash\<close>, and only tests whether
  the call returned an error. The dispatcher's state therefore holds the queue as that
  call answers: for every SDHash a row, or an error, which is \<^verbatim>\<open>ErrNotFound\<close> or any
  other failure of the lookup.
\<close>

datatype task_status =
  StatusPending | StatusDispatched | StatusRunning | StatusCompleted | StatusFailed | StatusTimedOut

record Task =
  task_TID :: string
  task_SDHash :: string
  task_URL :: string
  task_WorkerID :: string
  Status :: task_status
  Payload :: MsgTranscodingTask

datatype queue_error = ErrNotFound | ErrQueue string

type_synonym task_lookup = "string \<Rightarrow> queue_error + Task"


definition GetTaskBySDHash :: "Task list \<Rightarrow> task_lookup" where
  "GetTaskBySDHash q sdhash =
     (case find (\<lambda>t. task_SDHash t = sdhash) q of None \<Rightarrow> Inl ErrNotFound | Some t \<Rightarrow> Inr t)"


section \<open>The tower dispatcher\<close>

text \<open>
  The dispatcher goroutine of \<^verbatim>\<open>startForwardingRequests\<close> acts on the world through
  three calls: \<^verbatim>\<open>trReq.Reject()\<close>, \<^verbatim>\<open>at.SendPayload(...)\<close> and
  \<^verbatim>\<open>go s.manageTask(at)\<close>. The model records them, in order, in a trace. The
  \<^verbatim>\<open>requests\<close> channel is the list of requests still to be received, in producer
  order, and \<^verbatim>\<open>tasks\<close> is the task queue as the lookup answers. The dispatcher reads
  the queue and never writes it. Log lines of the dispatcher are not modelled.
\<close>

datatype dispatch_event =
  Rejected TranscodingRequest
| SentPayload activeTask MsgTranscodingTask
| Spawned activeTask

record dispatcher =
  requests :: "TranscodingRequest list"
  tasks :: task_lookup
  trace :: "dispatch_event list"

text \<open>
  Modelled from the spec: the body of \<^verbatim>\<open>activeTask.SendPayload\<close> is missing from the
  sources. By section 4.2 of the specification it transmits the message on the worker's
  inbox, and nothing else: the model records the call with the message it was given.
\<close>

definition SendPayload :: "activeTask \<Rightarrow> MsgTranscodingTask \<Rightarrow> dispatcher \<Rightarrow> dispatcher" where
  "SendPayload at mtt s = s\<lparr>trace := trace s @ [SentPayload at mtt]\<rparr>"

text \<open>
  The inner \<^verbatim>\<open>for\<close> loop (lines 194 to 207): receive a request, build the message,
  look the SDHash up; an error from the lookup, whichever it is, leaves the loop with that
  message, a row found rejects the request and goes round again. With no request left the
  receive blocks: the result holds no message.
\<close>

fun pickRequest ::
  "task_lookup \<Rightarrow> TranscodingRequest list \<Rightarrow> dispatch_event list \<Rightarrow>
   MsgTranscodingTask option \<times> TranscodingRequest list \<times> dispatch_event list" where
  "pickRequest q [] tr = (None, [], tr)"
| "pickRequest q (trReq # rest) tr =
     (let mtt = \<lparr>mtt_URL = URI trReq, mtt_SDHash = SDHash trReq, mtt_TID = []\<rparr>
      in case q (mtt_SDHash mtt) of
           Inl err \<Rightarrow> (Some mtt, rest, tr)
         | Inr t \<Rightarrow> pickRequest q rest (tr @ [Rejected trReq]))"

datatype 'a progress = Continues 'a | Blocks 'a

text \<open>The body of \<^verbatim>\<open>case at := <-activeTaskChan\<close> (lines 187 to 215).\<close>

definition serveActiveTask :: "activeTask \<Rightarrow> dispatcher \<Rightarrow> dispatcher progress" where
  "serveActiveTask at s =
     (case (restored at, exPayload at) of
        (True, Some p) \<Rightarrow>
          (let s1 = SendPayload at p s
           in Continues (s1\<lparr>trace := trace s1 @ [Spawned at]\<rparr>))
      | _ \<Rightarrow>
          (case pickRequest (tasks s) (requests s) (trace s) of
             (None, rest, tr) \<Rightarrow> Blocks (s\<lparr>requests := rest, trace := tr\<rparr>)
           | (Some mtt, rest, tr) \<Rightarrow>
               (let s1 = SendPayload at mtt (s\<lparr>requests := rest, trace := tr\<rparr>)
                in Continues (s1\<lparr>trace := trace s1 @ [Spawned at]\<rparr>))))"



fun state_of :: "'a progress \<Rightarrow> 'a" where
  "state_of (Continues s) = s"
| "state_of (Blocks s) = s"


section \<open>The active-task state machine\<close>

text \<open>
  \<^verbatim>\<open>manageTask\<close> works on the metrics, the library and the log. The gauge and the
  counters are vectors labelled by worker name. \<^verbatim>\<open>addCalls\<close> lists the streams
  \<^verbatim>\<open>AddRemoteStream\<close> was invoked with, and \<^verbatim>\<open>clock\<close> is the wall time.
\<close>

datatype log_level = Debug | Info | Warn | Error

record server =
  TranscodingRequestsRunning :: "string \<Rightarrow> int"
  TranscodingRequestsErrors :: "string \<Rightarrow> nat"
  TranscodingRequestsDone :: "string \<Rightarrow> nat"
  videoLibrary :: Library
  addCalls :: "RemoteStream list"
  logs :: "(log_level \<times> string) list"
  clock :: time

definition say :: "log_level \<Rightarrow> string \<Rightarrow> server \<Rightarrow> server" where
  "say lvl msg s = s\<lparr>logs := logs s @ [(lvl, msg)]\<rparr>"

definition advance :: "duration \<Rightarrow> server \<Rightarrow> server" where
  "advance dt s = s\<lparr>clock := clock s + dt\<rparr>"

definition RunningInc :: "string \<Rightarrow> server \<Rightarrow> server" where
  "RunningInc w s =
     s\<lparr>TranscodingRequestsRunning := (TranscodingRequestsRunning s)(w := TranscodingRequestsRunning s w + 1)\<rparr>"

definition RunningDec :: "string \<Rightarrow> server \<Rightarrow> server" where
  "RunningDec w s =
     s\<lparr>TranscodingRequestsRunning := (TranscodingRequestsRunning s)(w := TranscodingRequestsRunning s w - 1)\<rparr>"

definition ErrorsInc :: "string \<Rightarrow> server \<Rightarrow> server" where
  "ErrorsInc w s =
     s\<lparr>TranscodingRequestsErrors := (TranscodingRequestsErrors s)(w := TranscodingRequestsErrors s w + 1)\<rparr>"

definition DoneInc :: "string \<Rightarrow> server \<Rightarrow> server" where
  "DoneInc w s =
     s\<lparr>TranscodingRequestsDone := (TranscodingRequestsDone s)(w := TranscodingRequestsDone s w + 1)\<rparr>"

text \<open>
  The events a task's channels deliver. Each comes with the time the select statement
  waited for it since it was entered.
\<close>

datatype task_event =
  ProgressEv MsgWorkerProgress
| ErrorEv string
| SuccessEv MsgWorkerSuccess
| StopEv

text \<open>
  Waiting \<open>dt\<close> with no channel ready: whenever 300 s have passed the timer case of the
  select statement is taken, a warning is logged and the loop enters the select
  statement again, with a new timer.
\<close>

function silence :: "duration \<Rightarrow> server \<Rightarrow> server" where
  "silence dt s =
     (if silence_timer \<le> dt
      then silence (dt - silence_timer)
             (say Warn ''timed out waiting for worker status'' (advance silence_timer s))
      else advance dt s)"
  by pat_completeness auto
termination
  by (relation "measure (\<lambda>(dt, s). nat dt)")
     (auto simp: silence_timer_def Second_def Millisecond_def)

text \<open>
  The states of the machine are the specification's; \<^verbatim>\<open>manageTask\<close> returns no value,
  and the model labels each of its \<^verbatim>\<open>return\<close> statements with the state the
  specification gives it: after the error metric \<open>Errored\<close>, after the done metric
  \<open>Completed\<close>, on the stop channel \<open>Abandoned\<close>. \<open>Running\<close> is a loop that has
  not returned.
\<close>

datatype task_state = Running | Completed | Errored | TimedOut | Abandoned

text \<open>The body of \<^verbatim>\<open>case d := <-at.success\<close> (lines 243 to 257).\<close>

definition onSuccess :: "activeTask \<Rightarrow> MsgWorkerSuccess \<Rightarrow> server \<Rightarrow> task_state \<times> server" where
  "onSuccess at d s =
     (case Manifest (RemoteStream d) of
        None \<Rightarrow>
          (Errored, ErrorsInc (workerID at) (say Error ''remote stream missing manifest'' s))
      | Some m \<Rightarrow>
          (let s1 = RunningDec (workerID at) s;
               s2 = s1\<lparr>addCalls := addCalls s1 @ [RemoteStream d]\<rparr>
           in case AddRemoteStream (videoLibrary s2) (clock s2) (RemoteStream d) of
                Inl err \<Rightarrow>
                  (Errored, ErrorsInc (workerID at) (say Info ''error adding remote stream'' s2))
              | Inr lib \<Rightarrow>
                  (Completed,
                   DoneInc (workerID at) (say Info ''added remote stream'' (s2\<lparr>videoLibrary := lib\<rparr>)))))"

text \<open>
  The \<^verbatim>\<open>for { select { ... } }\<close> of \<^verbatim>\<open>manageTask\<close> (lines 234 to 263). After the
  last event of the list the loop waits for \<open>idle\<close> more.
\<close>

fun manageLoop ::
  "activeTask \<Rightarrow> (duration \<times> task_event) list \<Rightarrow> duration \<Rightarrow> server \<Rightarrow> task_state \<times> server" where
  "manageLoop at [] idle s = (Running, silence idle s)"
| "manageLoop at ((dt, ev) # evs) idle s =
     (case ev of
        ProgressEv p \<Rightarrow> manageLoop at evs idle (say Info ''progress received'' (silence dt s))
      | ErrorEv e \<Rightarrow> (Errored, ErrorsInc (workerID at) (say Error ''task errored'' (silence dt s)))
      | SuccessEv d \<Rightarrow> onSuccess at d (silence dt s)
      | StopEv \<Rightarrow> (Abandoned, silence dt s))"

text \<open>
  \<^verbatim>\<open>manageTask\<close>: the gauge is incremented on entry, and the deferred decrement runs
  when the function returns.
\<close>

definition manageTask ::
  "activeTask \<Rightarrow> (duration \<times> task_event) list \<Rightarrow> duration \<Rightarrow> server \<Rightarrow> task_state \<times> server" where
  "manageTask at evs idle s =
     (let s0 = say Info ''task dispatcher: managing task'' (RunningInc (workerID at) s)
      in case manageLoop at evs idle s0 of
           (Running, s1) \<Rightarrow> (Running, s1)
         | (st, s1) \<Rightarrow> (st, RunningDec (workerID at) s1))"


section \<open>The conductor\<close>

text \<open>
  The conductor couples the same request stream to an asynq client and reads results
  from a Redis list. \<^verbatim>\<open>tasks.TranscodingRequest\<close> is the payload of an asynq task and
  \<^verbatim>\<open>tasks.TranscodingResult\<close> the parsed result message.
\<close>

record tasks_TranscodingRequest =
  tr_URL :: string
  tr_SDHash :: string

record TranscodingResult =
  Stream :: RemoteStream

text \<open>
  \<^verbatim>\<open>asynq.Client.Enqueue\<close> belongs to a library outside the repository and
  \<^verbatim>\<open>tasks.NewTranscodingTask\<close> and \<^verbatim>\<open>TranscodingResult.FromString\<close> to a package
  that is not among the sources: the functions below take them as parameters. An
  enqueue either fails, with \<^verbatim>\<open>asynq.ErrDuplicateTask\<close> or another error, or returns
  the client with the task enqueued.
\<close>

datatype enqueue_error = ErrDuplicateTask | EnqueueFailure string

datatype conductor_error =
  TaskCreationError string
| TaskEnqueueError enqueue_error
| MessageReadingError string
| MessageParsingError string
| AddRemoteStreamFailed library_error

text \<open>
  A call returns a value, blocks for ever on an empty channel or list, or panics on a
  nil pointer.
\<close>

datatype 'a returned = Returns 'a | BlocksForever | Panics

datatype stage_label = StageLibraryAdd

record 'c conductor =
  incoming :: "TranscodingRequest list"
  rejects :: "TranscodingRequest list"
  asynqClient :: 'c
  results :: "string list"
  rdbClosed :: bool
  library :: Library
  ErrorsCount :: "stage_label \<Rightarrow> nat"
  RequestsCompleted :: "string \<Rightarrow> nat"
  Logger :: "(log_level \<times> string) list"

definition logged :: "log_level \<Rightarrow> string \<Rightarrow> 'c conductor \<Rightarrow> 'c conductor" where
  "logged lvl msg c = c\<lparr>Logger := Logger c @ [(lvl, msg)]\<rparr>"

function DispatchNextTask ::
  "(tasks_TranscodingRequest \<Rightarrow> string + 't) \<Rightarrow> ('c \<Rightarrow> 't \<Rightarrow> enqueue_error + 'c) \<Rightarrow>
   'c conductor \<Rightarrow> conductor_error option returned \<times> 'c conductor" where
  "DispatchNextTask NewTranscodingTask Enqueue c =
     (case incoming c of
        [] \<Rightarrow> (BlocksForever, c)
      | trReq # rest \<Rightarrow>
          (let c1 = c\<lparr>incoming := rest\<rparr>;
               req = \<lparr>tr_URL = URI trReq, tr_SDHash = SDHash trReq\<rparr>
           in case NewTranscodingTask req of
                Inl err \<Rightarrow> (Returns (Some (TaskCreationError err)), c1)
              | Inr t \<Rightarrow>
                  (case Enqueue (asynqClient c1) t of
                     Inl err \<Rightarrow>
                       if err = ErrDuplicateTask
                       then DispatchNextTask NewTranscodingTask Enqueue
                              (logged Info ''task deemed duplicate, skipping'' c1)
                       else (Returns (Some (TaskEnqueueError err)), c1)
                   | Inr cl \<Rightarrow>
                       (Returns None, logged Info ''enqueued task'' (c1\<lparr>asynqClient := cl\<rparr>)))))"
  by pat_completeness auto
termination
  by (relation "measure (\<lambda>(n, e, c). length (incoming c))") (auto simp: logged_def)

definition ProcessNextResult ::
  "(string \<Rightarrow> string + TranscodingResult) \<Rightarrow> time \<Rightarrow> 'c conductor \<Rightarrow>
   conductor_error option returned \<times> 'c conductor" where
  "ProcessNextResult FromString now c =
     (if rdbClosed c then (Returns (Some (MessageReadingError ''redis: client is closed'')), c)
      else case results c of
        [] \<Rightarrow> (BlocksForever, c)
      | r # rest \<Rightarrow>
          (let c1 = logged Debug ''result message received'' (c\<lparr>results := rest\<rparr>)
           in case FromString r of
                Inl err \<Rightarrow> (Returns (Some (MessageParsingError err)), c1)
              | Inr res \<Rightarrow>
                  (case AddRemoteStream (library c1) now (Stream res) of
                     Inl err \<Rightarrow>
                       (Returns (Some (AddRemoteStreamFailed err)),
                        (logged Info ''error adding remote stream'' c1)
                          \<lparr>ErrorsCount := (ErrorsCount c1)(StageLibraryAdd := ErrorsCount c1 StageLibraryAdd + 1)\<rparr>)
                   | Inr lib \<Rightarrow>
                       (case Manifest (Stream res) of
                          None \<Rightarrow> (Panics, c1\<lparr>library := lib\<rparr>)
                        | Some m \<Rightarrow>
                            (Returns None,
                             logged Info ''remote stream added''
                               (c1\<lparr>library := lib,
                                   RequestsCompleted := (RequestsCompleted c1)
                                     (TranscodedBy m := RequestsCompleted c1 (TranscodedBy m) + 1)\<rparr>))))))"


section \<open>Example inputs\<close>

definition restored_at :: activeTask where
  "restored_at = \<lparr>id' = ''t1'', workerID = ''w1'', restored = True,
     exPayload = Some \<lparr>mtt_URL = ''lbry://a'', mtt_SDHash = ''abc'', mtt_TID = ''t1''\<rparr>\<rparr>"

definition fresh_at :: activeTask where
  "fresh_at = \<lparr>id' = ''t2'', workerID = ''w1'', restored = False, exPayload = None\<rparr>"

definition fresh_at2 :: activeTask where
  "fresh_at2 = \<lparr>id' = ''t3'', workerID = ''w2'', restored = False, exPayload = None\<rparr>"

definition req_abc :: TranscodingRequest where
  "req_abc = \<lparr>URI = ''lbry://a'', SDHash = ''abc''\<rparr>"

definition req_def :: TranscodingRequest where
  "req_def = \<lparr>URI = ''lbry://b'', SDHash = ''def''\<rparr>"

definition req_def2 :: TranscodingRequest where
  "req_def2 = \<lparr>URI = ''lbry://b2'', SDHash = ''def''\<rparr>"

definition row_abc :: Task where
  "row_abc = \<lparr>task_TID = ''t1'', task_SDHash = ''abc'', task_URL = ''lbry://a'', task_WorkerID = ''w1'',
     Status = StatusRunning, Payload = \<lparr>mtt_URL = ''lbry://a'', mtt_SDHash = ''abc'', mtt_TID = ''t1''\<rparr>\<rparr>"


definition row_def :: Task where
  "row_def = \<lparr>task_TID = ''t2'', task_SDHash = ''def'', task_URL = ''lbry://b'', task_WorkerID = ''w1'',
     Status = StatusDispatched, Payload = \<lparr>mtt_URL = ''lbry://b'', mtt_SDHash = ''def'', mtt_TID = []\<rparr>\<rparr>"

definition disp_dup :: dispatcher where
  "disp_dup = \<lparr>requests = [req_abc, req_def], tasks = GetTaskBySDHash [row_abc], trace = []\<rparr>"


definition disp_two :: dispatcher where
  "disp_two = \<lparr>requests = [req_def, req_def2], tasks = GetTaskBySDHash [], trace = []\<rparr>"

definition disp_one :: dispatcher where
  "disp_one = \<lparr>requests = [req_def], tasks = GetTaskBySDHash [], trace = []\<rparr>"

definition server0 :: server where
  "server0 = \<lparr>TranscodingRequestsRunning = (\<lambda>w. 0), TranscodingRequestsErrors = (\<lambda>w. 0),
     TranscodingRequestsDone = (\<lambda>w. 0),
     videoLibrary = \<lparr>Storage = ''storage1'', videos = Map.empty\<rparr>,
     addCalls = [], logs = [], clock = 0\<rparr>"

definition manifest0 :: Manifest where
  "manifest0 = \<lparr>m_TID = ''abc123'', m_SDHash = ''def'', TranscodedBy = ''w1'', TranscodedAt = 5, Ladder = []\<rparr>"

definition stream0 :: RemoteStream where
  "stream0 = \<lparr>rs_SDHash = ''def'', Manifest = Some manifest0, RemoteStorage = ''storage1''\<rparr>"

definition stream_null :: RemoteStream where
  "stream_null = \<lparr>rs_SDHash = ''def'', Manifest = None, RemoteStorage = ''storage1''\<rparr>"

definition success0 :: MsgWorkerSuccess where
  "success0 = \<lparr>RemoteStream = stream0\<rparr>"

definition success_null :: MsgWorkerSuccess where
  "success_null = \<lparr>RemoteStream = stream_null\<rparr>"

definition library0 :: Library where
  "library0 = \<lparr>Storage = ''storage1'', videos = Map.empty\<rparr>"

definition video_abc :: Video where
  "video_abc = \<lparr>v_SDHash = ''abc'', v_Manifest = None, AccessCount = 3, AccessedAt = 1\<rparr>"

definition library1 :: Library where
  "library1 = \<lparr>Storage = ''storage1'', videos = [''abc'' \<mapsto> video_abc]\<rparr>"

text \<open>
  A stand-in for the asynq client, for examples: the client is the list of the unique
  keys it holds, a task is its key, and an enqueue of a key already held is a duplicate.
\<close>

definition newTask0 :: "tasks_TranscodingRequest \<Rightarrow> string + string" where
  "newTask0 req = Inr (tr_SDHash req)"

definition enqueue0 :: "string list \<Rightarrow> string \<Rightarrow> enqueue_error + string list" where
  "enqueue0 cl t = (if t \<in> set cl then Inl ErrDuplicateTask else Inr (cl @ [t]))"

definition parse0 :: "string \<Rightarrow> string + TranscodingResult" where
  "parse0 msg = (if msg = ''ok'' then Inr \<lparr>Stream = stream0\<rparr> else Inl ''invalid character'')"

definition conductor0 :: "string list conductor" where
  "conductor0 = \<lparr>incoming = [req_abc, req_def, req_def2], rejects = [], asynqClient = [''abc''],
     results = [''garbage'', ''ok''], rdbClosed = False, library = library0,
     ErrorsCount = (\<lambda>l. 0), RequestsCompleted = (\<lambda>w. 0), Logger = []\<rparr>"

definition conductor1 :: "string list conductor" where
  "conductor1 = conductor0\<lparr>results := [''ok'', ''garbage''],
     library := \<lparr>Storage = ''storage2'', videos = Map.empty\<rparr>\<rparr>"


section \<open>Properties of the dispatcher\<close>


lemma pickRequest_reject:
  "q (SDHash d) = Inr t \<Longrightarrow> pickRequest q (d # rest) tr = pickRequest q rest (tr @ [Rejected d])"
  by (simp add: Let_def)

lemma pickRequest_accept:
  "q (SDHash r) = Inl e \<Longrightarrow>
   pickRequest q (r # rest) tr = (Some \<lparr>mtt_URL = URI r, mtt_SDHash = SDHash r, mtt_TID = []\<rparr>, rest, tr)"
  by (simp add: Let_def)

lemma pickRequest_rejects:
  "\<forall>d \<in> set dups. \<exists>t. q (SDHash d) = Inr t \<Longrightarrow>
   pickRequest q (dups @ rest) tr = pickRequest q rest (tr @ map Rejected dups)"
proof (induction dups arbitrary: tr)
  case Nil
  then show ?case by simp
next
  case (Cons d dups)
  then obtain t where "q (SDHash d) = Inr t" by auto
  with Cons show ?case by (simp add: pickRequest_reject del: pickRequest.simps)
qed


lemma serveActiveTask_fresh_unfold:
  "\<not> (restored at \<and> exPayload at \<noteq> None) \<Longrightarrow>
   serveActiveTask at s =
     (case pickRequest (tasks s) (requests s) (trace s) of
        (None, rest, tr) \<Rightarrow> Blocks (s\<lparr>requests := rest, trace := tr\<rparr>)
      | (Some mtt, rest, tr) \<Rightarrow>
          (let s1 = SendPayload at mtt (s\<lparr>requests := rest, trace := tr\<rparr>)
           in Continues (s1\<lparr>trace := trace s1 @ [Spawned at]\<rparr>)))"
  by (cases "restored at"; cases "exPayload at") (simp_all add: serveActiveTask_def)

lemma serveActiveTask_fresh:
  assumes "\<not> (restored at \<and> exPayload at \<noteq> None)"
    and "requests s = dups @ r # rest"
    and "\<forall>d \<in> set dups. \<exists>t. tasks s (SDHash d) = Inr t"
    and "tasks s (SDHash r) = Inl e"
  shows "serveActiveTask at s =
     Continues (s\<lparr>requests := rest,
                  trace := trace s @ map Rejected dups
                    @ [SentPayload at \<lparr>mtt_URL = URI r, mtt_SDHash = SDHash r, mtt_TID = []\<rparr>, Spawned at]\<rparr>)"
proof -
  have "pickRequest (tasks s) (requests s) (trace s) =
        (Some \<lparr>mtt_URL = URI r, mtt_SDHash = SDHash r, mtt_TID = []\<rparr>, rest, trace s @ map Rejected dups)"
    using assms(2-4) by (simp add: pickRequest_rejects pickRequest_accept del: pickRequest.simps)
  then show ?thesis
    using assms(1) by (simp add: serveActiveTask_fresh_unfold SendPayload_def Let_def)
qed



text \<open>
  Claim C3. An active task that is restored and carries a stored payload is served by
  sending that stored payload with \<^verbatim>\<open>SendPayload\<close> and spawning \<^verbatim>\<open>manageTask\<close>
  for it: these two calls are all the dispatcher adds to the trace, no request is
  rejected, and the upstream requests are left exactly as they were, so no fresh request
  is dispatched.
\<close>

theorem restored_task_redelivery:
  assumes "restored at" and "exPayload at = Some p"
  shows "\<exists>s'. serveActiveTask at s = Continues s'
           \<and> trace s' = trace s @ [SentPayload at p, Spawned at]
           \<and> requests s' = requests s"
  using assms by (simp add: serveActiveTask_def SendPayload_def Let_def)

theorem restored_task_redelivery_witness:
  "restored restored_at
   \<and> exPayload restored_at = Some \<lparr>mtt_URL = ''lbry://a'', mtt_SDHash = ''abc'', mtt_TID = ''t1''\<rparr>
   \<and> (\<exists>s'. serveActiveTask restored_at disp_one = Continues s'
           \<and> trace s' = [SentPayload restored_at \<lparr>mtt_URL = ''lbry://a'', mtt_SDHash = ''abc'', mtt_TID = ''t1''\<rparr>,
                           Spawned restored_at]
           \<and> requests s' = [req_def])"
proof -
  have r: "restored restored_at" by (simp add: restored_at_def)
  have e: "exPayload restored_at = Some \<lparr>mtt_URL = ''lbry://a'', mtt_SDHash = ''abc'', mtt_TID = ''t1''\<rparr>"
    by (simp add: restored_at_def)
  have d: "trace disp_one = []" "requests disp_one = [req_def]"
    by (simp_all add: disp_one_def)
  from restored_task_redelivery [OF r e, of disp_one]
  show ?thesis using r e by (simp add: d)
qed


lemma example_lookups:
  "tasks disp_dup (SDHash req_abc) = Inr row_abc"
  "tasks disp_dup (SDHash req_def) = Inl ErrNotFound"
  "tasks disp_two (SDHash req_def) = Inl ErrNotFound"
  "GetTaskBySDHash [row_def] (SDHash req_def) = Inr row_def"
  "SDHash req_def2 = SDHash req_def"
  by (simp_all add: disp_dup_def disp_two_def GetTaskBySDHash_def row_abc_def row_def_def
      req_abc_def req_def_def req_def2_def)



text \<open>
  Claim C4, as amended. The message the dispatcher builds from the accepted candidate
  carries the request's URI as its URL and the request's SDHash; the dispatcher's struct
  literal does not set the TID, which stays empty, and the message is handed to
  \<^verbatim>\<open>SendPayload\<close> on the active task being served, the holder of the task id.
\<close>

theorem fresh_payload_fields:
  assumes "\<not> (restored at \<and> exPayload at \<noteq> None)"
    and "requests s = dups @ r # rest"
    and "\<forall>d \<in> set dups. \<exists>row. tasks s (SDHash d) = Inr row"
    and "tasks s (SDHash r) = Inl e"
  shows "\<exists>s' mtt. serveActiveTask at s = Continues s'
           \<and> trace s' = trace s @ map Rejected dups @ [SentPayload at mtt, Spawned at]
           \<and> mtt_URL mtt = URI r \<and> mtt_SDHash mtt = SDHash r \<and> mtt_TID mtt = []"
  using serveActiveTask_fresh [OF assms] by simp

theorem fresh_payload_fields_witness:
  "\<not> (restored fresh_at2 \<and> exPayload fresh_at2 \<noteq> None)
   \<and> requests disp_dup = [req_abc] @ req_def # []
   \<and> tasks disp_dup (SDHash req_abc) = Inr row_abc
   \<and> tasks disp_dup (SDHash req_def) = Inl ErrNotFound
   \<and> (\<exists>s' mtt. serveActiveTask fresh_at2 disp_dup = Continues s'
         \<and> trace s' = [Rejected req_abc, SentPayload fresh_at2 mtt, Spawned fresh_at2]
         \<and> mtt_URL mtt = ''lbry://b'' \<and> mtt_SDHash mtt = ''def'' \<and> mtt_TID mtt = [])"
proof -
  have a: "\<not> (restored fresh_at2 \<and> exPayload fresh_at2 \<noteq> None)"
    by (simp add: fresh_at2_def)
  have b: "requests disp_dup = [req_abc] @ req_def # []"
    by (simp add: disp_dup_def)
  have c: "\<forall>d \<in> set [req_abc]. \<exists>row. tasks disp_dup (SDHash d) = Inr row"
    by (simp add: example_lookups)
  have d: "tasks disp_dup (SDHash req_def) = Inl ErrNotFound"
    by (simp add: example_lookups)
  have f: "URI req_def = ''lbry://b''" "SDHash req_def = ''def''" "trace disp_dup = []"
    by (simp_all add: req_def_def disp_dup_def)
  from fresh_payload_fields [OF a b c d] show ?thesis
    using a b d example_lookups(1) by (simp add: f)
qed

text \<open>
  The claim as stated asks for a TID equal to the id of the active task. For the active
  task \<open>t2\<close> and one request the message sent has an empty TID.
\<close>

theorem fresh_payload_tid_counterexample:
  "trace (state_of (serveActiveTask fresh_at disp_one))
     = [SentPayload fresh_at \<lparr>mtt_URL = ''lbry://b'', mtt_SDHash = ''def'', mtt_TID = []\<rparr>, Spawned fresh_at]
   \<and> mtt_TID \<lparr>mtt_URL = ''lbry://b'', mtt_SDHash = ''def'', mtt_TID = []\<rparr> \<noteq> id' fresh_at"
  by (simp add: serveActiveTask_def fresh_at_def disp_one_def req_def_def GetTaskBySDHash_def
      SendPayload_def Let_def)

section \<open>Properties of the active-task state machine\<close>

declare silence.simps [simp del]

lemma silence_timer_pos: "0 < silence_timer"
  by (simp add: silence_timer_def Second_def Millisecond_def)

lemma silence_clock: "clock (silence dt s) = clock s + dt"
proof (induction dt s rule: silence.induct)
  case (1 dt s)
  show ?case
  proof (cases "silence_timer \<le> dt")
    case True
    with 1 show ?thesis
      by (subst silence.simps) (simp add: say_def advance_def)
  next
    case False
    then show ?thesis
      by (subst silence.simps) (simp add: advance_def)
  qed
qed

lemma silence_frame:
  "TranscodingRequestsRunning (silence dt s) = TranscodingRequestsRunning s
   \<and> TranscodingRequestsErrors (silence dt s) = TranscodingRequestsErrors s
   \<and> TranscodingRequestsDone (silence dt s) = TranscodingRequestsDone s
   \<and> videoLibrary (silence dt s) = videoLibrary s
   \<and> addCalls (silence dt s) = addCalls s"
proof (induction dt s rule: silence.induct)
  case (1 dt s)
  show ?case
  proof (cases "silence_timer \<le> dt")
    case True
    with 1 show ?thesis
      by (subst (1 2 3 4 5) silence.simps) (simp add: say_def advance_def)
  next
    case False
    then show ?thesis
      by (subst (1 2 3 4 5) silence.simps) (simp add: advance_def)
  qed
qed

lemma silence_logs:
  "logs (silence dt s) =
   logs s @ replicate (nat (dt div silence_timer)) (Warn, ''timed out waiting for worker status'')"
proof (induction dt s rule: silence.induct)
  case (1 dt s)
  show ?case
  proof (cases "silence_timer \<le> dt")
    case True
    have "dt div silence_timer = (dt - silence_timer) div silence_timer + 1"
      using div_add_self2 [of silence_timer "dt - silence_timer"] silence_timer_pos by simp
    moreover have "0 \<le> (dt - silence_timer) div silence_timer"
      using True silence_timer_pos by (simp add: pos_imp_zdiv_nonneg_iff)
    ultimately have n: "nat (dt div silence_timer) = Suc (nat ((dt - silence_timer) div silence_timer))"
      by simp
    from True 1 show ?thesis
      by (subst silence.simps) (simp add: n say_def advance_def replicate_app_Cons_same)
  next
    case False
    then have "dt div silence_timer \<le> 0"
      using pos_imp_zdiv_pos_iff [of silence_timer dt] silence_timer_pos by simp
    with False show ?thesis
      by (subst silence.simps) (simp add: advance_def)
  qed
qed

lemma silence_short: "dt < silence_timer \<Longrightarrow> silence dt s = advance dt s"
  by (subst silence.simps) simp

lemma silence_long:
  "silence_timer \<le> dt \<Longrightarrow>
   silence dt s = silence (dt - silence_timer)
     (say Warn ''timed out waiting for worker status'' (advance silence_timer s))"
  by (subst silence.simps) simp

lemma onSuccess_cases:
  "onSuccess at d s =
     (case Manifest (RemoteStream d) of
        None \<Rightarrow> (Errored, ErrorsInc (workerID at) (say Error ''remote stream missing manifest'' s))
      | Some m \<Rightarrow>
          (case AddRemoteStream (videoLibrary s) (clock s) (RemoteStream d) of
             Inl err \<Rightarrow>
               (Errored, ErrorsInc (workerID at) (say Info ''error adding remote stream''
                  ((RunningDec (workerID at) s)\<lparr>addCalls := addCalls s @ [RemoteStream d]\<rparr>)))
           | Inr lib \<Rightarrow>
               (Completed, DoneInc (workerID at) (say Info ''added remote stream''
                  ((RunningDec (workerID at) s)\<lparr>addCalls := addCalls s @ [RemoteStream d],
                     videoLibrary := lib\<rparr>)))))"
  by (simp add: onSuccess_def Let_def RunningDec_def split: option.splits sum.splits)

text \<open>
  Claim C2. Whatever state the loop of \<^verbatim>\<open>manageTask\<close> is in when it receives a success
  event \<open>d\<close>: with a nil manifest the error counter of the task's worker goes up by one,
  \<^verbatim>\<open>AddRemoteStream\<close> is not invoked, the library is left as it was, and the machine
  ends Errored; with a manifest \<^verbatim>\<open>AddRemoteStream\<close> is invoked on the stream of \<open>d\<close>,
  and then an ingestion error raises the error counter and ends the machine Errored,
  while a successful ingestion raises the done counter of that worker, keeps the new
  library, and ends the machine Completed.
\<close>

theorem success_event_handling:
  "(Manifest (RemoteStream d) = None \<longrightarrow>
      (\<exists>s'. manageLoop at ((dt, SuccessEv d) # evs) idle s = (Errored, s')
         \<and> TranscodingRequestsErrors s' =
             (TranscodingRequestsErrors s)(workerID at := TranscodingRequestsErrors s (workerID at) + 1)
         \<and> TranscodingRequestsDone s' = TranscodingRequestsDone s
         \<and> addCalls s' = addCalls s
         \<and> videoLibrary s' = videoLibrary s))
   \<and> (Manifest (RemoteStream d) \<noteq> None \<longrightarrow>
      (\<exists>st s'. manageLoop at ((dt, SuccessEv d) # evs) idle s = (st, s')
         \<and> addCalls s' = addCalls s @ [RemoteStream d]
         \<and> (case AddRemoteStream (videoLibrary s) (clock s + dt) (RemoteStream d) of
               Inl err \<Rightarrow>
                 st = Errored
                 \<and> TranscodingRequestsErrors s' =
                     (TranscodingRequestsErrors s)(workerID at := TranscodingRequestsErrors s (workerID at) + 1)
                 \<and> TranscodingRequestsDone s' = TranscodingRequestsDone s
                 \<and> videoLibrary s' = videoLibrary s
             | Inr lib \<Rightarrow>
                 st = Completed
                 \<and> TranscodingRequestsDone s' =
                     (TranscodingRequestsDone s)(workerID at := TranscodingRequestsDone s (workerID at) + 1)
                 \<and> TranscodingRequestsErrors s' = TranscodingRequestsErrors s
                 \<and> videoLibrary s' = lib)))"
proof (intro conjI impI)
  assume "Manifest (RemoteStream d) = None"
  then show "\<exists>s'. manageLoop at ((dt, SuccessEv d) # evs) idle s = (Errored, s')
         \<and> TranscodingRequestsErrors s' =
             (TranscodingRequestsErrors s)(workerID at := TranscodingRequestsErrors s (workerID at) + 1)
         \<and> TranscodingRequestsDone s' = TranscodingRequestsDone s
         \<and> addCalls s' = addCalls s
         \<and> videoLibrary s' = videoLibrary s"
    by (simp add: onSuccess_cases ErrorsInc_def say_def silence_frame)
next
  assume "Manifest (RemoteStream d) \<noteq> None"
  then obtain m where m: "Manifest (RemoteStream d) = Some m" by auto
  show "\<exists>st s'. manageLoop at ((dt, SuccessEv d) # evs) idle s = (st, s')
         \<and> addCalls s' = addCalls s @ [RemoteStream d]
         \<and> (case AddRemoteStream (videoLibrary s) (clock s + dt) (RemoteStream d) of
               Inl err \<Rightarrow>
                 st = Errored
                 \<and> TranscodingRequestsErrors s' =
                     (TranscodingRequestsErrors s)(workerID at := TranscodingRequestsErrors s (workerID at) + 1)
                 \<and> TranscodingRequestsDone s' = TranscodingRequestsDone s
                 \<and> videoLibrary s' = videoLibrary s
             | Inr lib \<Rightarrow>
                 st = Completed
                 \<and> TranscodingRequestsDone s' =
                     (TranscodingRequestsDone s)(workerID at := TranscodingRequestsDone s (workerID at) + 1)
                 \<and> TranscodingRequestsErrors s' = TranscodingRequestsErrors s
                 \<and> videoLibrary s' = lib)"
  proof (cases "AddRemoteStream (videoLibrary s) (clock s + dt) (RemoteStream d)")
    case (Inl err)
    with m show ?thesis
      by (simp add: onSuccess_cases ErrorsInc_def RunningDec_def say_def silence_frame silence_clock)
  next
    case (Inr lib)
    with m show ?thesis
      by (simp add: onSuccess_cases DoneInc_def RunningDec_def say_def silence_frame silence_clock)
  qed
qed

lemma add_stream0: 
  "AddRemoteStream (videoLibrary server0) (clock server0 + 0) (RemoteStream success0) =
   Inr \<lparr>Storage = ''storage1'', videos = [''def'' \<mapsto>
      \<lparr>v_SDHash = ''def'', v_Manifest = Some (manifest0\<lparr>TranscodedAt := 0\<rparr>), AccessCount = 0, AccessedAt = 0\<rparr>]\<rparr>"
  by (simp add: AddRemoteStream_def server0_def success0_def stream0_def)

theorem success_event_handling_witness:
  "Manifest (RemoteStream success_null) = None
   \<and> (\<exists>s'. manageLoop fresh_at [(0, SuccessEv success_null)] 0 server0 = (Errored, s')
         \<and> TranscodingRequestsErrors s' (workerID fresh_at) = 1
         \<and> TranscodingRequestsDone s' (workerID fresh_at) = 0
         \<and> addCalls s' = []
         \<and> videoLibrary s' = videoLibrary server0)
   \<and> Manifest (RemoteStream success0) \<noteq> None
   \<and> (\<exists>s'. manageLoop fresh_at [(0, SuccessEv success0)] 0 server0 = (Completed, s')
         \<and> addCalls s' = [RemoteStream success0]
         \<and> TranscodingRequestsDone s' (workerID fresh_at) = 1
         \<and> TranscodingRequestsErrors s' (workerID fresh_at) = 0)"
proof -
  have n: "Manifest (RemoteStream success_null) = None"
    by (simp add: success_null_def stream_null_def)
  have p: "Manifest (RemoteStream success0) \<noteq> None"
    by (simp add: success0_def stream0_def)
  have z: "TranscodingRequestsErrors server0 = (\<lambda>w. 0)" "TranscodingRequestsDone server0 = (\<lambda>w. 0)"
    "addCalls server0 = []"
    by (simp_all add: server0_def)
  from success_event_handling [of success_null fresh_at 0 "[]" 0 server0] n
  have first: "\<exists>s'. manageLoop fresh_at [(0, SuccessEv success_null)] 0 server0 = (Errored, s')
         \<and> TranscodingRequestsErrors s' =
             (TranscodingRequestsErrors server0)(workerID fresh_at := TranscodingRequestsErrors server0 (workerID fresh_at) + 1)
         \<and> TranscodingRequestsDone s' = TranscodingRequestsDone server0
         \<and> addCalls s' = addCalls server0
         \<and> videoLibrary s' = videoLibrary server0"
    by blast
  from success_event_handling [of success0 fresh_at 0 "[]" 0 server0] p
  have "\<exists>st s'. manageLoop fresh_at [(0, SuccessEv success0)] 0 server0 = (st, s')
         \<and> addCalls s' = addCalls server0 @ [RemoteStream success0]
         \<and> (case AddRemoteStream (videoLibrary server0) (clock server0 + 0) (RemoteStream success0) of
               Inl err \<Rightarrow>
                 st = Errored
                 \<and> TranscodingRequestsErrors s' =
                     (TranscodingRequestsErrors server0)(workerID fresh_at := TranscodingRequestsErrors server0 (workerID fresh_at) + 1)
                 \<and> TranscodingRequestsDone s' = TranscodingRequestsDone server0
                 \<and> videoLibrary s' = videoLibrary server0
             | Inr lib \<Rightarrow>
                 st = Completed
                 \<and> TranscodingRequestsDone s' =
                     (TranscodingRequestsDone server0)(workerID fresh_at := TranscodingRequestsDone server0 (workerID fresh_at) + 1)
                 \<and> TranscodingRequestsErrors s' = TranscodingRequestsErrors server0
                 \<and> videoLibrary s' = lib)"
    by blast
  then have second: "\<exists>s'. manageLoop fresh_at [(0, SuccessEv success0)] 0 server0 = (Completed, s')
         \<and> addCalls s' = [RemoteStream success0]
         \<and> TranscodingRequestsDone s' (workerID fresh_at) = 1
         \<and> TranscodingRequestsErrors s' (workerID fresh_at) = 0"
    unfolding add_stream0 by (auto simp: z)
  from first have first': "\<exists>s'. manageLoop fresh_at [(0, SuccessEv success_null)] 0 server0 = (Errored, s')
         \<and> TranscodingRequestsErrors s' (workerID fresh_at) = 1
         \<and> TranscodingRequestsDone s' (workerID fresh_at) = 0
         \<and> addCalls s' = []
         \<and> videoLibrary s' = videoLibrary server0"
    by (auto simp: z)
  from n p first' second show ?thesis by blast
qed

text \<open>
  Claim C5 does not hold of the code. A task whose worker reports success with a
  manifest leaves the running gauge one below where it started: it is incremented on
  entry, decremented at line 249 before the library is called, and decremented again by
  the deferred call when \<^verbatim>\<open>manageTask\<close> returns.
\<close>

theorem running_gauge_decremented_twice:
  "fst (manageTask fresh_at [(0, SuccessEv success0)] 0 server0) = Completed
   \<and> TranscodingRequestsRunning server0 (workerID fresh_at) = 0
   \<and> TranscodingRequestsRunning (snd (manageTask fresh_at [(0, SuccessEv success0)] 0 server0))
        (workerID fresh_at) = - 1"
  by (simp add: manageTask_def onSuccess_def silence_short silence_timer_pos AddRemoteStream_def
      server0_def success0_def stream0_def fresh_at_def
      say_def advance_def RunningInc_def RunningDec_def DoneInc_def Let_def)

lemma manageLoop_not_TimedOut: "fst (manageLoop at evs idle s) \<noteq> TimedOut"
proof (induction evs arbitrary: s)
  case Nil
  then show ?case by simp
next
  case (Cons e evs)
  obtain dt ev where e: "e = (dt, ev)" by (cases e)
  show ?case
  proof (cases ev)
    case (ProgressEv p)
    with e Cons.IH show ?thesis by simp
  next
    case (ErrorEv x)
    with e show ?thesis by simp
  next
    case (SuccessEv d)
    with e show ?thesis
      by (simp add: onSuccess_cases split: option.splits sum.splits)
  next
    case StopEv
    with e show ?thesis by simp
  qed
qed

text \<open>
  Claim C6, as amended. The state machine never ends a task because of silence. The
  timer of its select statement is the literal 300 s, not the configured
  \<^verbatim>\<open>request_timeout_base\<close>, whose default is 60 s. Whenever 300 s pass with no event
  the machine logs a warning and goes on waiting for the same event; with no event at
  all it stays Running, having logged one warning per 300 s and changed neither the
  metrics nor the library; and no run of the machine ends in TimedOut, so a hard timeout
  is never declared here.
\<close>

theorem silence_only_warns:
  "silence_timer = 300 * Second
   \<and> defaultTimings TRequestTimeoutBase = Some (60 * Second)
   \<and> (silence_timer \<le> dt \<longrightarrow>
        manageLoop at ((dt, ev) # evs) idle s =
        manageLoop at ((dt - silence_timer, ev) # evs) idle
          (say Warn ''timed out waiting for worker status'' (advance silence_timer s)))
   \<and> (\<exists>s'. manageLoop at [] idle s = (Running, s')
         \<and> logs s' = logs s
              @ replicate (nat (idle div silence_timer)) (Warn, ''timed out waiting for worker status'')
         \<and> TranscodingRequestsRunning s' = TranscodingRequestsRunning s
         \<and> TranscodingRequestsErrors s' = TranscodingRequestsErrors s
         \<and> TranscodingRequestsDone s' = TranscodingRequestsDone s
         \<and> videoLibrary s' = videoLibrary s)
   \<and> fst (manageLoop at evs idle s) \<noteq> TimedOut
   \<and> fst (manageTask at evs idle s) \<noteq> TimedOut"
proof (intro conjI impI)
  show "silence_timer = 300 * Second" by (simp add: silence_timer_def)
  show "defaultTimings TRequestTimeoutBase = Some (60 * Second)"
    by (simp add: defaultTimings_def TRequestTimeoutBase_def TWorkerWait_def TRequestPick_def
        TRequestSweep_def TWorkerStatusTimeout_def Minute_def)
  show "manageLoop at ((dt, ev) # evs) idle s =
        manageLoop at ((dt - silence_timer, ev) # evs) idle
          (say Warn ''timed out waiting for worker status'' (advance silence_timer s))"
    if "silence_timer \<le> dt"
    using that by (cases ev) (simp_all add: silence_long)
  show "\<exists>s'. manageLoop at [] idle s = (Running, s')
         \<and> logs s' = logs s
              @ replicate (nat (idle div silence_timer)) (Warn, ''timed out waiting for worker status'')
         \<and> TranscodingRequestsRunning s' = TranscodingRequestsRunning s
         \<and> TranscodingRequestsErrors s' = TranscodingRequestsErrors s
         \<and> TranscodingRequestsDone s' = TranscodingRequestsDone s
         \<and> videoLibrary s' = videoLibrary s"
    by (simp add: silence_logs silence_frame)
  show "fst (manageLoop at evs idle s) \<noteq> TimedOut"
    by (rule manageLoop_not_TimedOut)
  show "fst (manageTask at evs idle s) \<noteq> TimedOut"
    using manageLoop_not_TimedOut
      [of at evs idle "say Info ''task dispatcher: managing task'' (RunningInc (workerID at) s)"]
    by (auto simp: manageTask_def Let_def split: prod.splits task_state.splits)
qed

theorem silence_only_warns_witness:
  "silence_timer \<le> 300 * Second
   \<and> manageLoop fresh_at [(300 * Second, StopEv)] 0 server0 =
       manageLoop fresh_at [(300 * Second - silence_timer, StopEv)] 0
         (say Warn ''timed out waiting for worker status'' (advance silence_timer server0))
   \<and> fst (manageLoop fresh_at [] 0 server0) \<noteq> TimedOut"
proof -
  have le: "silence_timer \<le> 300 * Second" by (simp add: silence_timer_def)
  from silence_only_warns [of "300 * Second" fresh_at StopEv "[]" 0 server0] le
  show ?thesis by blast
qed

text \<open>
  The claim as stated ties the warning to \<^verbatim>\<open>request_timeout_base\<close>. Its default is
  60 s, and after 60 s of silence the machine has logged nothing.
\<close>

theorem silence_threshold_counterexample:
  "defaultTimings TRequestTimeoutBase = Some (60 * Second)
   \<and> manageLoop fresh_at [] (60 * Second) server0 = (Running, server0\<lparr>clock := 60 * Second\<rparr>)
   \<and> logs (server0\<lparr>clock := 60 * Second\<rparr>) = []"
  by (simp add: defaultTimings_def TRequestTimeoutBase_def TWorkerWait_def TRequestPick_def
      TRequestSweep_def TWorkerStatusTimeout_def Minute_def
      silence_short silence_timer_def Second_def Millisecond_def advance_def server0_def)


section \<open>Properties of the library\<close>

lemma same_manifest_tid:
  assumes "same_manifest a (Some m)"
  shows "manifest_tid a = m_TID m"
proof (cases a)
  case None
  with assms show ?thesis by (simp add: same_manifest_def unstamped_def)
next
  case (Some m')
  with assms have "m'\<lparr>TranscodedAt := 0\<rparr> = m\<lparr>TranscodedAt := 0\<rparr>"
    by (simp add: same_manifest_def unstamped_def)
  then have "m_TID (m'\<lparr>TranscodedAt := 0\<rparr>) = m_TID (m\<lparr>TranscodedAt := 0\<rparr>)"
    by (rule arg_cong)
  with Some show ?thesis by (simp add: manifest_tid_def)
qed

lemma same_manifest_stamped: "same_manifest (map_option (\<lambda>m. m\<lparr>TranscodedAt := now\<rparr>) mo) mo"
  by (cases mo) (simp_all add: same_manifest_def unstamped_def)

lemma AddRemoteStream_row:
  assumes "AddRemoteStream lib now rs = Inr lib'"
  shows "RemoteStorage rs = Storage lib \<and> Storage lib' = Storage lib
     \<and> (\<exists>v. videos lib' (rs_SDHash rs) = Some v \<and> same_manifest (v_Manifest v) (Manifest rs)
          \<and> (videos lib (rs_SDHash rs) = None \<longrightarrow> AccessCount v = 0))"
proof (cases "videos lib (rs_SDHash rs)")
  case None
  with assms show ?thesis
    by (auto simp: AddRemoteStream_def same_manifest_stamped split: if_splits)
next
  case (Some v)
  with assms show ?thesis
    by (auto simp: AddRemoteStream_def split: if_splits)
qed

lemma AddRemoteStream_keeps:
  assumes "AddRemoteStream lib now rs = Inr lib'" and "videos lib k = Some v0"
  shows "\<exists>v'. videos lib' k = Some v' \<and> AccessCount v0 \<le> AccessCount v'"
proof (cases "videos lib (rs_SDHash rs)")
  case None
  with assms have "k \<noteq> rs_SDHash rs" by auto
  with assms None show ?thesis
    by (auto simp: AddRemoteStream_def split: if_splits)
next
  case (Some v)
  with assms show ?thesis
    by (auto simp: AddRemoteStream_def split: if_splits)
qed

text \<open>
  Claim C7. For an SDHash with no ingested stream \<^verbatim>\<open>GetVideoURL\<close> answers
  \<^verbatim>\<open>ErrStreamNotFound\<close>; after \<^verbatim>\<open>AddRemoteStream\<close> has succeeded on a stream with
  manifest, \<^verbatim>\<open>GetVideoURL\<close> of the stream's SDHash is \<^verbatim>\<open>remote://\<close>, the stream's
  remote storage, a slash, the manifest's TID and a slash.
\<close>

theorem video_url_derivation:
  "(videos lib sdhash = None \<longrightarrow> GetVideoURL lib sdhash = Inl ErrStreamNotFound)
   \<and> (AddRemoteStream lib now rs = Inr lib' \<and> Manifest rs = Some m \<longrightarrow>
        GetVideoURL lib' (rs_SDHash rs) = Inr (''remote://'' @ RemoteStorage rs @ ''/'' @ m_TID m @ ''/''))"
proof (intro conjI impI)
  assume "videos lib sdhash = None"
  then show "GetVideoURL lib sdhash = Inl ErrStreamNotFound"
    by (simp add: GetVideoURL_def)
next
  assume h: "AddRemoteStream lib now rs = Inr lib' \<and> Manifest rs = Some m"
  with AddRemoteStream_row [of lib now rs lib'] obtain v where
    "RemoteStorage rs = Storage lib" "Storage lib' = Storage lib"
    "videos lib' (rs_SDHash rs) = Some v" "same_manifest (v_Manifest v) (Some m)"
    by auto
  then show "GetVideoURL lib' (rs_SDHash rs) = Inr (''remote://'' @ RemoteStorage rs @ ''/'' @ m_TID m @ ''/'')"
    by (simp add: GetVideoURL_def same_manifest_tid)
qed

theorem video_url_derivation_witness:
  "videos library0 ''def'' = None
   \<and> GetVideoURL library0 ''def'' = Inl ErrStreamNotFound
   \<and> (\<exists>lib'. AddRemoteStream library0 7 stream0 = Inr lib'
         \<and> Manifest stream0 = Some manifest0
         \<and> GetVideoURL lib' ''def'' = Inr ''remote://storage1/abc123/'')"
proof -
  have none: "videos library0 ''def'' = None"
    by (simp add: library0_def)
  obtain lib' where add: "AddRemoteStream library0 7 stream0 = Inr lib'"
    by (simp add: AddRemoteStream_def library0_def stream0_def)
  have m: "Manifest stream0 = Some manifest0"
    by (simp add: stream0_def)
  have f: "rs_SDHash stream0 = ''def''" "RemoteStorage stream0 = ''storage1''" "m_TID manifest0 = ''abc123''"
    by (simp_all add: stream0_def manifest0_def)
  from video_url_derivation [of library0 "''def''" 7 stream0 lib' manifest0] none add m
  have "GetVideoURL library0 ''def'' = Inl ErrStreamNotFound"
    and "GetVideoURL lib' (rs_SDHash stream0)
        = Inr (''remote://'' @ RemoteStorage stream0 @ ''/'' @ m_TID manifest0 @ ''/'')"
    by blast+
  with none add m show ?thesis by (simp add: f)
qed

text \<open>
  Claim C8. After a successful \<^verbatim>\<open>AddRemoteStream\<close>, \<^verbatim>\<open>GetVideo\<close> of the stream's
  SDHash succeeds and returns the stream's manifest up to \<^verbatim>\<open>TranscodedAt\<close>. Every
  successful \<^verbatim>\<open>GetVideo\<close> returns and stores the row with \<^verbatim>\<open>AccessCount\<close> one higher
  than before and \<^verbatim>\<open>AccessedAt\<close> set to the time of the call, hence within 2 s of it; the
  first \<^verbatim>\<open>GetVideo\<close> after a stream was inserted sees \<^verbatim>\<open>AccessCount\<close> 1; and neither
  operation lowers the \<^verbatim>\<open>AccessCount\<close> of any row.
\<close>

theorem manifest_roundtrip_and_access_metadata:
  "(AddRemoteStream lib now rs = Inr lib' \<longrightarrow>
      (\<exists>v lib''. GetVideo lib' now' (rs_SDHash rs) = Inr (v, lib'')
         \<and> same_manifest (v_Manifest v) (Manifest rs)))
   \<and> (GetVideo lib1 t h = Inr (v1, lib2) \<longrightarrow>
      (\<exists>v0. videos lib1 h = Some v0 \<and> videos lib2 h = Some v1
         \<and> AccessCount v1 = AccessCount v0 + 1
         \<and> AccessedAt v1 = t \<and> \<bar>t - AccessedAt v1\<bar> \<le> 2 * Second))
   \<and> (videos lib (rs_SDHash rs) = None \<and> AddRemoteStream lib now rs = Inr lib'
        \<and> GetVideo lib' now' (rs_SDHash rs) = Inr (v, lib3) \<longrightarrow> AccessCount v = 1)
   \<and> (AddRemoteStream lib now rs = Inr lib' \<and> videos lib k = Some w \<longrightarrow>
      (\<exists>w'. videos lib' k = Some w' \<and> AccessCount w \<le> AccessCount w'))
   \<and> (GetVideo lib1 t h = Inr (v1, lib2) \<and> videos lib1 k = Some w \<longrightarrow>
      (\<exists>w'. videos lib2 k = Some w' \<and> AccessCount w \<le> AccessCount w'))"
proof (intro conjI impI)
  assume "AddRemoteStream lib now rs = Inr lib'"
  from AddRemoteStream_row [OF this] obtain v0 where
    "videos lib' (rs_SDHash rs) = Some v0" "same_manifest (v_Manifest v0) (Manifest rs)"
    by auto
  then show "\<exists>v lib''. GetVideo lib' now' (rs_SDHash rs) = Inr (v, lib'')
         \<and> same_manifest (v_Manifest v) (Manifest rs)"
    by (simp add: GetVideo_def Let_def)
next
  assume "GetVideo lib1 t h = Inr (v1, lib2)"
  then show "\<exists>v0. videos lib1 h = Some v0 \<and> videos lib2 h = Some v1
         \<and> AccessCount v1 = AccessCount v0 + 1
         \<and> AccessedAt v1 = t \<and> \<bar>t - AccessedAt v1\<bar> \<le> 2 * Second"
    by (auto simp: GetVideo_def Let_def Second_def Millisecond_def split: option.splits)
next
  assume h: "videos lib (rs_SDHash rs) = None \<and> AddRemoteStream lib now rs = Inr lib'
        \<and> GetVideo lib' now' (rs_SDHash rs) = Inr (v, lib3)"
  with AddRemoteStream_row [of lib now rs lib'] obtain v0 where
    "videos lib' (rs_SDHash rs) = Some v0" "AccessCount v0 = 0"
    by auto
  with h show "AccessCount v = 1"
    by (auto simp: GetVideo_def Let_def)
next
  assume "AddRemoteStream lib now rs = Inr lib' \<and> videos lib k = Some w"
  then show "\<exists>w'. videos lib' k = Some w' \<and> AccessCount w \<le> AccessCount w'"
    using AddRemoteStream_keeps [of lib now rs lib' k w] by blast
next
  assume "GetVideo lib1 t h = Inr (v1, lib2) \<and> videos lib1 k = Some w"
  then show "\<exists>w'. videos lib2 k = Some w' \<and> AccessCount w \<le> AccessCount w'"
    by (cases "k = h") (auto simp: GetVideo_def Let_def split: option.splits)
qed

theorem manifest_roundtrip_and_access_metadata_witness:
  "\<exists>lib' v lib3 v1 lib2.
     AddRemoteStream library1 7 stream0 = Inr lib'
     \<and> videos library1 (rs_SDHash stream0) = None
     \<and> GetVideo lib' 9 (rs_SDHash stream0) = Inr (v, lib3)
     \<and> same_manifest (v_Manifest v) (Manifest stream0)
     \<and> AccessCount v = 1
     \<and> GetVideo library1 9 ''abc'' = Inr (v1, lib2)
     \<and> videos library1 ''abc'' = Some video_abc
     \<and> AccessCount v1 = AccessCount video_abc + 1
     \<and> AccessedAt v1 = 9
     \<and> (\<exists>w'. videos lib' ''abc'' = Some w' \<and> AccessCount video_abc \<le> AccessCount w')
     \<and> (\<exists>w'. videos lib2 ''abc'' = Some w' \<and> AccessCount video_abc \<le> AccessCount w')"
proof -
  obtain lib' where add: "AddRemoteStream library1 7 stream0 = Inr lib'"
    by (simp add: AddRemoteStream_def library1_def stream0_def)
  have none: "videos library1 (rs_SDHash stream0) = None"
    by (simp add: library1_def stream0_def)
  have row: "videos library1 ''abc'' = Some video_abc"
    by (simp add: library1_def)
  obtain v1 lib2 where get1: "GetVideo library1 9 ''abc'' = Inr (v1, lib2)"
    by (simp add: GetVideo_def row Let_def)
  note inst = manifest_roundtrip_and_access_metadata
    [where lib = library1 and now = 7 and rs = stream0 and lib' = lib' and now' = 9
       and ?lib1.0 = library1 and t = 9 and h = "''abc''" and ?v1.0 = v1 and ?lib2.0 = lib2
       and k = "''abc''" and w = video_abc]
  from inst add obtain v lib3 where
    get: "GetVideo lib' 9 (rs_SDHash stream0) = Inr (v, lib3)"
    and same: "same_manifest (v_Manifest v) (Manifest stream0)"
    by blast
  from manifest_roundtrip_and_access_metadata
    [where lib = library1 and now = 7 and rs = stream0 and lib' = lib' and now' = 9
       and ?lib1.0 = library1 and t = 9 and h = "''abc''" and ?v1.0 = v1 and ?lib2.0 = lib2
       and k = "''abc''" and w = video_abc and v = v and ?lib3.0 = lib3]
    add none get get1 row
  have "AccessCount v = 1"
    and "\<exists>v0. videos library1 ''abc'' = Some v0 \<and> videos lib2 ''abc'' = Some v1
         \<and> AccessCount v1 = AccessCount v0 + 1
         \<and> AccessedAt v1 = 9 \<and> \<bar>9 - AccessedAt v1\<bar> \<le> 2 * Second"
    and "\<exists>w'. videos lib' ''abc'' = Some w' \<and> AccessCount video_abc \<le> AccessCount w'"
    and "\<exists>w'. videos lib2 ''abc'' = Some w' \<and> AccessCount video_abc \<le> AccessCount w'"
    by blast+
  with add none get same get1 row show ?thesis
    by auto
qed


section \<open>Properties of the conductor\<close>

declare DispatchNextTask.simps [simp del]

lemma DispatchNextTask_empty:
  "incoming c = [] \<Longrightarrow> DispatchNextTask nt enq c = (BlocksForever, c)"
  by (subst DispatchNextTask.simps) simp

lemma DispatchNextTask_duplicate:
  "incoming c = r # rest \<Longrightarrow> nt \<lparr>tr_URL = URI r, tr_SDHash = SDHash r\<rparr> = Inr t \<Longrightarrow>
   enq (asynqClient c) t = Inl ErrDuplicateTask \<Longrightarrow>
   DispatchNextTask nt enq c =
   DispatchNextTask nt enq (logged Info ''task deemed duplicate, skipping'' (c\<lparr>incoming := rest\<rparr>))"
  by (subst DispatchNextTask.simps) (simp add: Let_def)

lemma DispatchNextTask_enqueued:
  "incoming c = r # rest \<Longrightarrow> nt \<lparr>tr_URL = URI r, tr_SDHash = SDHash r\<rparr> = Inr t \<Longrightarrow>
   enq (asynqClient c) t = Inr cl \<Longrightarrow>
   DispatchNextTask nt enq c =
   (Returns None, logged Info ''enqueued task'' (c\<lparr>incoming := rest, asynqClient := cl\<rparr>))"
  by (subst DispatchNextTask.simps) (simp add: Let_def)

lemma DispatchNextTask_never_duplicate:
  "incoming c = xs \<Longrightarrow>
   fst (DispatchNextTask nt enq c) \<noteq> Returns (Some (TaskEnqueueError ErrDuplicateTask))
   \<and> rejects (snd (DispatchNextTask nt enq c)) = rejects c"
proof (induction xs arbitrary: c)
  case Nil
  then show ?case by (simp add: DispatchNextTask_empty)
next
  case (Cons r rest)
  let ?c1 = "c\<lparr>incoming := rest\<rparr>"
  show ?case
  proof (cases "nt \<lparr>tr_URL = URI r, tr_SDHash = SDHash r\<rparr>")
    case (Inl e)
    with Cons.prems show ?thesis
      by (subst (1 2) DispatchNextTask.simps) (simp add: Let_def)
  next
    case t: (Inr t)
    show ?thesis
    proof (cases "enq (asynqClient c) t")
      case (Inl err)
      show ?thesis
      proof (cases "err = ErrDuplicateTask")
        case True
        have "incoming (logged Info ''task deemed duplicate, skipping'' ?c1) = rest"
          by (simp add: logged_def)
        from Cons.IH [OF this]
        show ?thesis
          using Cons.prems t Inl True by (simp add: DispatchNextTask_duplicate logged_def)
      next
        case False
        with Cons.prems t Inl show ?thesis
          by (subst (1 2) DispatchNextTask.simps) (simp add: Let_def)
      qed
    next
      case (Inr cl)
      with Cons.prems t show ?thesis
        by (simp add: DispatchNextTask_enqueued logged_def)
    qed
  qed
qed

lemma DispatchNextTask_skips:
  "incoming c = dups @ r # rest \<Longrightarrow>
   \<forall>d \<in> set dups. \<exists>t. nt \<lparr>tr_URL = URI d, tr_SDHash = SDHash d\<rparr> = Inr t
      \<and> enq (asynqClient c) t = Inl ErrDuplicateTask \<Longrightarrow>
   nt \<lparr>tr_URL = URI r, tr_SDHash = SDHash r\<rparr> = Inr t \<Longrightarrow>
   enq (asynqClient c) t = Inr cl \<Longrightarrow>
   DispatchNextTask nt enq c =
   (Returns None,
    c\<lparr>incoming := rest, asynqClient := cl,
      Logger := Logger c @ replicate (length dups) (Info, ''task deemed duplicate, skipping'')
                  @ [(Info, ''enqueued task'')]\<rparr>)"
proof (induction dups arbitrary: c)
  case Nil
  then show ?case
    by (simp add: DispatchNextTask_enqueued logged_def)
next
  case (Cons d dups)
  let ?c1 = "logged Info ''task deemed duplicate, skipping'' (c\<lparr>incoming := dups @ r # rest\<rparr>)"
  from Cons.prems(2) obtain td where
    td: "nt \<lparr>tr_URL = URI d, tr_SDHash = SDHash d\<rparr> = Inr td"
        "enq (asynqClient c) td = Inl ErrDuplicateTask"
    by auto
  from Cons.prems(1) td have step: "DispatchNextTask nt enq c = DispatchNextTask nt enq ?c1"
    by (simp add: DispatchNextTask_duplicate)
  have "DispatchNextTask nt enq ?c1 =
   (Returns None,
    ?c1\<lparr>incoming := rest, asynqClient := cl,
      Logger := Logger ?c1 @ replicate (length dups) (Info, ''task deemed duplicate, skipping'')
                  @ [(Info, ''enqueued task'')]\<rparr>)"
    using Cons.prems by (intro Cons.IH) (simp_all add: logged_def)
  with step show ?case
    by (simp add: logged_def replicate_app_Cons_same)
qed

text \<open>
  Claim C9. \<^verbatim>\<open>DispatchNextTask\<close> never returns the duplicate-task error of an enqueue
  and never calls \<^verbatim>\<open>Reject\<close>, whatever the task constructor and the asynq client do.
  When the next incoming requests are duplicates for the client and the one behind them
  enqueues, the call consumes them all, one recursive call per duplicate, and returns
  nil with the task enqueued; each duplicate leaves one Info line in the log and nothing
  else.
\<close>

theorem duplicate_task_skipped_without_reject:
  "fst (DispatchNextTask nt enq c) \<noteq> Returns (Some (TaskEnqueueError ErrDuplicateTask))
   \<and> rejects (snd (DispatchNextTask nt enq c)) = rejects c
   \<and> (incoming c = dups @ r # rest
        \<and> (\<forall>d \<in> set dups. \<exists>t. nt \<lparr>tr_URL = URI d, tr_SDHash = SDHash d\<rparr> = Inr t
              \<and> enq (asynqClient c) t = Inl ErrDuplicateTask)
        \<and> nt \<lparr>tr_URL = URI r, tr_SDHash = SDHash r\<rparr> = Inr t
        \<and> enq (asynqClient c) t = Inr cl
      \<longrightarrow> DispatchNextTask nt enq c =
           (Returns None,
            c\<lparr>incoming := rest, asynqClient := cl,
              Logger := Logger c @ replicate (length dups) (Info, ''task deemed duplicate, skipping'')
                          @ [(Info, ''enqueued task'')]\<rparr>))"
proof (intro conjI impI)
  show "fst (DispatchNextTask nt enq c) \<noteq> Returns (Some (TaskEnqueueError ErrDuplicateTask))"
    using DispatchNextTask_never_duplicate [of c "incoming c" nt enq] by simp
  show "rejects (snd (DispatchNextTask nt enq c)) = rejects c"
    using DispatchNextTask_never_duplicate [of c "incoming c" nt enq] by simp
  assume h: "incoming c = dups @ r # rest
        \<and> (\<forall>d \<in> set dups. \<exists>t. nt \<lparr>tr_URL = URI d, tr_SDHash = SDHash d\<rparr> = Inr t
              \<and> enq (asynqClient c) t = Inl ErrDuplicateTask)
        \<and> nt \<lparr>tr_URL = URI r, tr_SDHash = SDHash r\<rparr> = Inr t
        \<and> enq (asynqClient c) t = Inr cl"
  then show "DispatchNextTask nt enq c =
           (Returns None,
            c\<lparr>incoming := rest, asynqClient := cl,
              Logger := Logger c @ replicate (length dups) (Info, ''task deemed duplicate, skipping'')
                          @ [(Info, ''enqueued task'')]\<rparr>)"
    by (intro DispatchNextTask_skips) blast+
qed

theorem duplicate_task_skipped_without_reject_witness:
  "incoming conductor0 = [req_abc] @ req_def # [req_def2]
   \<and> newTask0 \<lparr>tr_URL = URI req_abc, tr_SDHash = SDHash req_abc\<rparr> = Inr ''abc''
   \<and> enqueue0 (asynqClient conductor0) ''abc'' = Inl ErrDuplicateTask
   \<and> newTask0 \<lparr>tr_URL = URI req_def, tr_SDHash = SDHash req_def\<rparr> = Inr ''def''
   \<and> enqueue0 (asynqClient conductor0) ''def'' = Inr [''abc'', ''def'']
   \<and> DispatchNextTask newTask0 enqueue0 conductor0 =
       (Returns None,
        conductor0\<lparr>incoming := [req_def2], asynqClient := [''abc'', ''def''],
          Logger := [(Info, ''task deemed duplicate, skipping''), (Info, ''enqueued task'')]\<rparr>)
   \<and> rejects (snd (DispatchNextTask newTask0 enqueue0 conductor0)) = []"
proof -
  have a: "incoming conductor0 = [req_abc] @ req_def # [req_def2]"
    and l: "Logger conductor0 = []" and rj: "rejects conductor0 = []"
    by (simp_all add: conductor0_def)
  have b: "newTask0 \<lparr>tr_URL = URI req_abc, tr_SDHash = SDHash req_abc\<rparr> = Inr ''abc''"
    and c: "enqueue0 (asynqClient conductor0) ''abc'' = Inl ErrDuplicateTask"
    and d: "newTask0 \<lparr>tr_URL = URI req_def, tr_SDHash = SDHash req_def\<rparr> = Inr ''def''"
    and e: "enqueue0 (asynqClient conductor0) ''def'' = Inr [''abc'', ''def'']"
    by (simp_all add: newTask0_def enqueue0_def conductor0_def req_abc_def req_def_def)
  from b c have dups: "\<forall>x \<in> set [req_abc]. \<exists>t. newTask0 \<lparr>tr_URL = URI x, tr_SDHash = SDHash x\<rparr> = Inr t
              \<and> enqueue0 (asynqClient conductor0) t = Inl ErrDuplicateTask"
    by simp
  note inst = duplicate_task_skipped_without_reject
    [of newTask0 enqueue0 conductor0 "[req_abc]" req_def "[req_def2]" "''def''" "[''abc'', ''def'']"]
  from inst a dups d e have
    run: "DispatchNextTask newTask0 enqueue0 conductor0 =
           (Returns None,
            conductor0\<lparr>incoming := [req_def2], asynqClient := [''abc'', ''def''],
              Logger := Logger conductor0
                 @ replicate (length [req_abc]) (Info, ''task deemed duplicate, skipping'')
                 @ [(Info, ''enqueued task'')]\<rparr>)"
    by blast
  from inst have "rejects (snd (DispatchNextTask newTask0 enqueue0 conductor0)) = rejects conductor0"
    by blast
  with run a b c d e show ?thesis
    by (simp add: l rj)
qed

lemma ProcessNextResult_pops:
  assumes "\<not> rdbClosed c" and "results c = r # rest"
  shows "results (snd (ProcessNextResult fs now c)) = rest"
  using assms
  by (simp add: ProcessNextResult_def logged_def Let_def split: sum.splits option.splits)

lemma ProcessNextResult_parse_error:
  assumes "\<not> rdbClosed c" and "results c = r # rest" and "fs r = Inl e"
  shows "ProcessNextResult fs now c =
     (Returns (Some (MessageParsingError e)),
      logged Debug ''result message received'' (c\<lparr>results := rest\<rparr>))"
  using assms by (simp add: ProcessNextResult_def Let_def)

lemma ProcessNextResult_library_error:
  assumes "\<not> rdbClosed c" and "results c = r # rest" and "fs r = Inr res"
    and "AddRemoteStream (library c) now (Stream res) = Inl le"
  shows "ProcessNextResult fs now c =
     (Returns (Some (AddRemoteStreamFailed le)),
      (logged Info ''error adding remote stream''
         (logged Debug ''result message received'' (c\<lparr>results := rest\<rparr>)))
        \<lparr>ErrorsCount := (ErrorsCount c)(StageLibraryAdd := ErrorsCount c StageLibraryAdd + 1)\<rparr>)"
  using assms by (simp add: ProcessNextResult_def logged_def Let_def)

text \<open>
  Claim C10. With the Redis client open and a message at the head of the results list,
  \<^verbatim>\<open>ProcessNextResult\<close> takes that message off the list whatever happens next. When
  the message does not parse, or when \<^verbatim>\<open>AddRemoteStream\<close> refuses its stream, the call
  returns the error, the library is as before, and the list is left without the message:
  nothing puts it back.
\<close>

theorem popped_result_lost_on_error:
  "(\<not> rdbClosed c \<and> results c = r # rest \<longrightarrow>
      results (snd (ProcessNextResult fs now c)) = rest)
   \<and> (\<not> rdbClosed c \<and> results c = r # rest \<and> fs r = Inl e \<longrightarrow>
      fst (ProcessNextResult fs now c) = Returns (Some (MessageParsingError e))
      \<and> results (snd (ProcessNextResult fs now c)) = rest
      \<and> library (snd (ProcessNextResult fs now c)) = library c)
   \<and> (\<not> rdbClosed c \<and> results c = r # rest \<and> fs r = Inr res
        \<and> AddRemoteStream (library c) now (Stream res) = Inl le \<longrightarrow>
      fst (ProcessNextResult fs now c) = Returns (Some (AddRemoteStreamFailed le))
      \<and> results (snd (ProcessNextResult fs now c)) = rest
      \<and> library (snd (ProcessNextResult fs now c)) = library c)"
proof (intro conjI impI)
  assume "\<not> rdbClosed c \<and> results c = r # rest"
  then show "results (snd (ProcessNextResult fs now c)) = rest"
    by (simp add: ProcessNextResult_pops)
next
  assume h: "\<not> rdbClosed c \<and> results c = r # rest \<and> fs r = Inl e"
  then have run: "ProcessNextResult fs now c =
     (Returns (Some (MessageParsingError e)),
      logged Debug ''result message received'' (c\<lparr>results := rest\<rparr>))"
    by (intro ProcessNextResult_parse_error) blast+
  show "fst (ProcessNextResult fs now c) = Returns (Some (MessageParsingError e))"
    and "results (snd (ProcessNextResult fs now c)) = rest"
    and "library (snd (ProcessNextResult fs now c)) = library c"
    by (simp_all add: run logged_def)
next
  assume h: "\<not> rdbClosed c \<and> results c = r # rest \<and> fs r = Inr res
        \<and> AddRemoteStream (library c) now (Stream res) = Inl le"
  then have run: "ProcessNextResult fs now c =
     (Returns (Some (AddRemoteStreamFailed le)),
      (logged Info ''error adding remote stream''
         (logged Debug ''result message received'' (c\<lparr>results := rest\<rparr>)))
        \<lparr>ErrorsCount := (ErrorsCount c)(StageLibraryAdd := ErrorsCount c StageLibraryAdd + 1)\<rparr>)"
    by (intro ProcessNextResult_library_error [where r = r and res = res]) blast+
  show "fst (ProcessNextResult fs now c) = Returns (Some (AddRemoteStreamFailed le))"
    and "results (snd (ProcessNextResult fs now c)) = rest"
    and "library (snd (ProcessNextResult fs now c)) = library c"
    by (simp_all add: run logged_def)
qed

theorem popped_result_lost_on_error_witness:
  "\<not> rdbClosed conductor0 \<and> results conductor0 = ''garbage'' # [''ok'']
   \<and> parse0 ''garbage'' = Inl ''invalid character''
   \<and> fst (ProcessNextResult parse0 7 conductor0) = Returns (Some (MessageParsingError ''invalid character''))
   \<and> results (snd (ProcessNextResult parse0 7 conductor0)) = [''ok'']
   \<and> library (snd (ProcessNextResult parse0 7 conductor0)) = library conductor0
   \<and> \<not> rdbClosed conductor1 \<and> results conductor1 = ''ok'' # [''garbage'']
   \<and> parse0 ''ok'' = Inr \<lparr>Stream = stream0\<rparr>
   \<and> AddRemoteStream (library conductor1) 7 (Stream \<lparr>Stream = stream0\<rparr>) = Inl ErrStorageUnknown
   \<and> fst (ProcessNextResult parse0 7 conductor1) = Returns (Some (AddRemoteStreamFailed ErrStorageUnknown))
   \<and> results (snd (ProcessNextResult parse0 7 conductor1)) = [''garbage'']
   \<and> library (snd (ProcessNextResult parse0 7 conductor1)) = library conductor1"
proof -
  have a: "\<not> rdbClosed conductor0" "results conductor0 = ''garbage'' # [''ok'']"
    "\<not> rdbClosed conductor1" "results conductor1 = ''ok'' # [''garbage'']"
    by (simp_all add: conductor0_def conductor1_def)
  have b: "parse0 ''garbage'' = Inl ''invalid character''" "parse0 ''ok'' = Inr \<lparr>Stream = stream0\<rparr>"
    by (simp_all add: parse0_def)
  have c: "AddRemoteStream (library conductor1) 7 (Stream \<lparr>Stream = stream0\<rparr>) = Inl ErrStorageUnknown"
    by (simp add: AddRemoteStream_def conductor1_def stream0_def)
  from popped_result_lost_on_error
    [of conductor0 "''garbage''" "[''ok'']" parse0 7 "''invalid character''"] a b
  have first: "fst (ProcessNextResult parse0 7 conductor0) = Returns (Some (MessageParsingError ''invalid character''))
      \<and> results (snd (ProcessNextResult parse0 7 conductor0)) = [''ok'']
      \<and> library (snd (ProcessNextResult parse0 7 conductor0)) = library conductor0"
    by blast
  from popped_result_lost_on_error
    [of conductor1 "''ok''" "[''garbage'']" parse0 7 _ "\<lparr>Stream = stream0\<rparr>" ErrStorageUnknown] a b c
  have second: "fst (ProcessNextResult parse0 7 conductor1) = Returns (Some (AddRemoteStreamFailed ErrStorageUnknown))
      \<and> results (snd (ProcessNextResult parse0 7 conductor1)) = [''garbage'']
      \<and> library (snd (ProcessNextResult parse0 7 conductor1)) = library conductor1"
    by blast
  from a b c first second show ?thesis by blast
qed

end
